theory Spec2Isabelle
  imports Main "HOL-Library.Char_ord" "HOL-Library.List_Lexorder" "HOL-Library.Multiset"
begin

section \<open>Strings, truthiness and the two validation patterns\<close>

text \<open>
  Python strings are modelled as \<open>string\<close>, read as sequences of code points below 256.
  An optional argument (\<open>None\<close> by default) is a \<open>string option\<close>. Python's truth test on
  such a value holds for a non-empty string only.
\<close>

definition truthy :: "string option \<Rightarrow> bool" where
  "truthy x = (case x of None \<Rightarrow> False | Some s \<Rightarrow> s \<noteq> [])"

text \<open>\<open>str.lower()\<close> on code points below 256: A-Z, and the Latin-1 capitals but the
  multiplication sign, move up by 32.\<close>

definition lower_char :: "char \<Rightarrow> char" where
  "lower_char c =
     (let n = (of_char c :: nat)
      in if (65 \<le> n \<and> n \<le> 90) \<or> (192 \<le> n \<and> n \<le> 222 \<and> n \<noteq> 215)
         then char_of (n + 32) else c)"

definition lower :: "string \<Rightarrow> string" where
  "lower s = map lower_char s"

text \<open>
  The regular expressions of the two validators, matched by derivatives.
  \<open>Digit\<close> is \<open>\d\<close> (below code point 256 only 0-9 are decimal digits), \<open>Dot\<close> is \<open>.\<close>,
  which matches every character but the newline.
\<close>

datatype regex =
    Empty
  | Eps
  | Lit char
  | Digit
  | Dot
  | Alt regex regex
  | Seq regex regex
  | Star regex

primrec nullable :: "regex \<Rightarrow> bool" where
  "nullable Empty = False"
| "nullable Eps = True"
| "nullable (Lit c) = False"
| "nullable Digit = False"
| "nullable Dot = False"
| "nullable (Alt r s) = (nullable r \<or> nullable s)"
| "nullable (Seq r s) = (nullable r \<and> nullable s)"
| "nullable (Star r) = True"

definition is_digit :: "char \<Rightarrow> bool" where
  "is_digit c = (let n = (of_char c :: nat) in 48 \<le> n \<and> n \<le> 57)"

primrec deriv :: "char \<Rightarrow> regex \<Rightarrow> regex" where
  "deriv c Empty = Empty"
| "deriv c Eps = Empty"
| "deriv c (Lit d) = (if c = d then Eps else Empty)"
| "deriv c Digit = (if is_digit c then Eps else Empty)"
| "deriv c Dot = (if c = CHR 0x0A then Empty else Eps)"
| "deriv c (Alt r s) = Alt (deriv c r) (deriv c s)"
| "deriv c (Seq r s) =
     (if nullable r then Alt (Seq (deriv c r) s) (deriv c s) else Seq (deriv c r) s)"
| "deriv c (Star r) = Seq (deriv c r) (Star r)"

definition fullmatch :: "regex \<Rightarrow> string \<Rightarrow> bool" where
  "fullmatch r s = nullable (foldl (\<lambda>q c. deriv c q) r s)"

definition plus :: "regex \<Rightarrow> regex" where
  "plus r = Seq r (Star r)"

primrec rep :: "nat \<Rightarrow> regex \<Rightarrow> regex" where
  "rep 0 r = Eps"
| "rep (Suc n) r = Seq r (rep n r)"

text \<open>\<^verbatim>\<open>\(\d{3}\) \d{3}-\d{4}\<close>\<close>

definition phone_pattern :: regex where
  "phone_pattern =
     Seq (Lit CHR ''('') (Seq (rep 3 Digit) (Seq (Lit CHR '')'') (Seq (Lit CHR '' '')
       (Seq (rep 3 Digit) (Seq (Lit CHR ''-'') (rep 4 Digit))))))"

text \<open>\<^verbatim>\<open>.+@.+\..+\<close>\<close>

definition email_pattern :: regex where
  "email_pattern =
     Seq (plus Dot) (Seq (Lit CHR ''@'') (Seq (plus Dot) (Seq (Lit CHR ''.'') (plus Dot))))"

definition is_valid_phone :: "string \<Rightarrow> bool" where
  "is_valid_phone phone = fullmatch phone_pattern phone"

definition is_valid_email :: "string \<Rightarrow> bool" where
  "is_valid_email email = (fullmatch email_pattern email \<or> email = [])"

section \<open>Contact\<close>

type_synonym timestamp = nat

text \<open>The five user-supplied fields; the dictionaries \<open>old_values\<close> and \<open>new_values\<close>
  hold exactly these.\<close>

record "values" =
  first_name :: string
  last_name :: string
  phone_number :: string
  email :: "string option"
  address :: "string option"

record history_entry =
  entry_time_updated :: timestamp
  old_values :: "values"
  new_values :: "values"

record contact = "values" +
  time_created :: timestamp
  time_updated :: timestamp
  update_history :: "history_entry list"

definition values_of :: "contact \<Rightarrow> values" where
  "values_of c =
     \<lparr>first_name = first_name c, last_name = last_name c, phone_number = phone_number c,
      email = email c, address = address c\<rparr>"

text \<open>\<open>Contact.__eq__\<close>: the five fields, nothing else.\<close>

definition contact_eq :: "contact \<Rightarrow> contact \<Rightarrow> bool" where
  "contact_eq a b =
     (first_name a = first_name b \<and> last_name a = last_name b \<and>
      phone_number a = phone_number b \<and> email a = email b \<and> address a = address b)"

section \<open>The world: clock, object store, audit log, data files, console\<close>

text \<open>
  A contact object is an address into the object store; the phone book's list holds
  addresses, so that an update through one reference is seen through every other.
  \<open>datetime.now()\<close> is the next reading of a clock, a value in microseconds; every call
  consumes one reading.
\<close>

type_synonym ref = nat

text \<open>The description given to \<open>log_operation\<close>, one constructor per f-string of the
  source, holding the values the f-string interpolates.\<close>

datatype operation =
    Added_contact string string
  | Deleted_contact string
  | Failed_to_delete_contact string
  | Batch_added_contacts string
  | Batch_deleted_contacts string
  | Updated_contact "values" contact
  | Searched_for_contacts string nat
  | Sorted_alphabetically
  | Grouped_by_initial
  | Invalid_sort_type

text \<open>One call of \<open>log_operation\<close> writes one record: the clock reading and the
  description.\<close>

type_synonym log_line = "timestamp \<times> operation"

text \<open>
  The text of a record. A piece of text is a character, or the text Python produces for a
  value that is not a string: \<open>str\<close> of a \<open>datetime\<close> and of an \<open>int\<close>, and the \<open>repr\<close> of a
  dictionary (which escapes the line breaks of the strings inside it). These never hold a
  line break and are kept whole. Strings interpolated into an f-string go in as they are.
\<close>

datatype piece =
    Ch char
  | Str_datetime timestamp
  | Str_int nat
  | Repr_values "values"
  | Repr_dict contact

definition chars :: "string \<Rightarrow> piece list" where
  "chars s = map Ch s"

text \<open>The f-string given to \<open>log_operation\<close>.\<close>

fun render :: "operation \<Rightarrow> piece list" where
  "render (Added_contact fn ln) = chars ''Added contact: '' @ chars fn @ chars '' '' @ chars ln"
| "render (Deleted_contact n) = chars ''Deleted contact: '' @ chars n"
| "render (Failed_to_delete_contact n) = chars ''Failed to delete contact: '' @ chars n"
| "render (Batch_added_contacts f) = chars ''Batch added contacts from file: '' @ chars f"
| "render (Batch_deleted_contacts f) = chars ''Batch deleted contacts from file: '' @ chars f"
| "render (Updated_contact old c) =
     chars ''Updated contact: '' @ [Repr_values old] @ chars '' to '' @ [Repr_dict c]"
| "render (Searched_for_contacts q n) =
     chars ''Searched for contacts with query: '' @ chars q @ chars '', found '' @
     [Str_int n] @ chars '' matches''"
| "render Sorted_alphabetically = chars ''Sorted contacts alphabetically by last name.''"
| "render Grouped_by_initial = chars ''Grouped contacts by last name initial.''"
| "render Invalid_sort_type = chars ''Attempted to sort contacts with invalid sort type.''"

text \<open>\<^verbatim>\<open>f"{datetime.now()} - {operation}\n"\<close>\<close>

definition record_text :: "log_line \<Rightarrow> piece list" where
  "record_text l = [Str_datetime (fst l)] @ chars '' - '' @ render (snd l) @ [Ch (CHR 0x0A)]"

text \<open>
  The lines of a text as Python reads them from a file opened in text mode: a line ends at
  a line feed, at a carriage return, or at a carriage return followed by a line feed
  (taken as one end); text after the last end is a line of its own. The flag says that
  the piece before was a carriage return; the second argument is the line read so far.
\<close>

fun split_lines :: "bool \<Rightarrow> piece list \<Rightarrow> piece list \<Rightarrow> piece list list" where
  "split_lines after_cr cur [] = (if cur = [] then [] else [cur])"
| "split_lines after_cr cur (g # rest) =
     (if g = Ch (CHR 0x0A) then
        (if after_cr then split_lines False cur rest
         else cur # split_lines False [] rest)
      else if g = Ch (CHR 0x0D) then cur # split_lines True [] rest
      else split_lines False (cur @ [g]) rest)"

definition has_break :: "piece list \<Rightarrow> bool" where
  "has_break t = (Ch (CHR 0x0A) \<in> set t \<or> Ch (CHR 0x0D) \<in> set t)"

text \<open>\<open>str.strip()\<close>: the characters below code point 256 for which \<open>isspace\<close> holds are
  9 to 13, 28 to 32, 133 and 160.\<close>

definition is_space :: "piece \<Rightarrow> bool" where
  "is_space g =
     (case g of
        Ch c \<Rightarrow> (let n = (of_char c :: nat)
                 in (9 \<le> n \<and> n \<le> 13) \<or> (28 \<le> n \<and> n \<le> 32) \<or> n = 133 \<or> n = 160)
      | _ \<Rightarrow> False)"

definition strip :: "piece list \<Rightarrow> piece list" where
  "strip t = rev (dropWhile is_space (rev (dropWhile is_space t)))"

text \<open>What \<open>print\<close> writes, one constructor per message of the source.\<close>

datatype message =
    Print_deleted string
  | Print_no_contact_found string
  | Print_batch_added
  | Print_batch_removed
  | Print_does_not_exist string string
  | Print_invalid_phone
  | Print_invalid_email
  | Print_updated
  | Print_no_contacts_available
  | Print_listing_header
  | Print_rule
  | Print_listing_row nat string string string "string option" "string option"
  | Print_total nat
  | Print_contact contact
  | Print_blank
  | Print_no_matches string
  | Print_invalid_sort
  | Print_audit_header
  | Print_audit_line "piece list"
  | Print_log_cleared

datatype error = IndexError | ValueError | FileNotFoundError | RegexError

record world =
  contacts_list :: "ref list"
  objects :: "ref \<Rightarrow> contact"
  next_ref :: ref
  audit_log :: "log_line list option"
  data_files :: "string \<Rightarrow> string list list option"
  stdout :: "message list"
  clock :: "nat \<Rightarrow> timestamp"
  ticks :: nat

text \<open>An operation returns normally with the new world (and a value), or raises with the
  world as it was when the exception left the method.\<close>

type_synonym 'a result = "(error \<times> world) + ('a \<times> world)"

definition now :: "world \<Rightarrow> timestamp \<times> world" where
  "now w = (clock w (ticks w), w\<lparr>ticks := Suc (ticks w)\<rparr>)"

text \<open>\<open>.replace(microsecond=0)\<close>\<close>

definition replace_microsecond_0 :: "timestamp \<Rightarrow> timestamp" where
  "replace_microsecond_0 t = t - t mod 1000000"

definition print :: "message \<Rightarrow> world \<Rightarrow> world" where
  "print x w = w\<lparr>stdout := stdout w @ [x]\<rparr>"

text \<open>\<open>Contact.__init__\<close>: the clock is read twice, once for each time field.\<close>

definition Contact_init ::
  "string \<Rightarrow> string \<Rightarrow> string \<Rightarrow> string option \<Rightarrow> string option \<Rightarrow> world \<Rightarrow> contact \<times> world"
where
  "Contact_init fn ln ph em ad w =
     (let (t1, w1) = now w;
          (t2, w2) = now w1
      in (\<lparr>first_name = fn, last_name = ln, phone_number = ph, email = em, address = ad,
           time_created = replace_microsecond_0 t1,
           time_updated = replace_microsecond_0 t2,
           update_history = []\<rparr>, w2))"

text \<open>A constructed contact that is kept gets the next free address.\<close>

definition new_contact ::
  "string \<Rightarrow> string \<Rightarrow> string \<Rightarrow> string option \<Rightarrow> string option \<Rightarrow> world \<Rightarrow> ref \<times> world"
where
  "new_contact fn ln ph em ad w =
     (let (c, w1) = Contact_init fn ln ph em ad w;
          r = next_ref w1
      in (r, w1\<lparr>objects := (objects w1)(r := c), next_ref := Suc r\<rparr>))"

text \<open>\<open>x if x else y\<close>, for a string field and for an optional field.\<close>

definition or_keep :: "string option \<Rightarrow> string \<Rightarrow> string" where
  "or_keep x old = (case x of None \<Rightarrow> old | Some s \<Rightarrow> if s \<noteq> [] then s else old)"

definition or_keep_opt :: "string option \<Rightarrow> string option \<Rightarrow> string option" where
  "or_keep_opt x old = (if truthy x then x else old)"

text \<open>\<open>Contact.update\<close>, on the object at address \<open>r\<close>.\<close>

definition Contact_update ::
  "ref \<Rightarrow> string option \<Rightarrow> string option \<Rightarrow> string option \<Rightarrow> string option \<Rightarrow> string option
     \<Rightarrow> world \<Rightarrow> world"
where
  "Contact_update r fn ln ph em ad w =
     (let c = objects w r;
          old = values_of c;
          c1 = c\<lparr>first_name := or_keep fn (first_name c),
                 last_name := or_keep ln (last_name c),
                 phone_number := or_keep ph (phone_number c),
                 email := or_keep_opt em (email c),
                 address := or_keep_opt ad (address c)\<rparr>;
          (t, w1) = now w;
          c2 = c1\<lparr>time_updated := replace_microsecond_0 t\<rparr>;
          c3 = c2\<lparr>update_history := update_history c2 @
                 [\<lparr>entry_time_updated = time_updated c2, old_values = old,
                   new_values = values_of c2\<rparr>]\<rparr>
      in w1\<lparr>objects := (objects w1)(r := c3)\<rparr>)"

section \<open>PhoneBook\<close>

text \<open>\<open>PhoneBook.__init__\<close>: the list is empty; the audit log file is whatever earlier
  runs left.\<close>

definition PhoneBook_init :: "world \<Rightarrow> world" where
  "PhoneBook_init w = w\<lparr>contacts_list := []\<rparr>"

text \<open>\<open>log_operation\<close>: opening for append creates a missing file; the write itself is
  taken to succeed. The file holds what this program wrote to it: a sequence of records.\<close>

definition log_lines :: "world \<Rightarrow> log_line list" where
  "log_lines w = (case audit_log w of None \<Rightarrow> [] | Some ls \<Rightarrow> ls)"

text \<open>The content of the audit log file is the text of its records, one after the other;
  its lines are the lines of that text.\<close>

definition file_text :: "log_line list \<Rightarrow> piece list" where
  "file_text ls = concat (map record_text ls)"


definition log_operation :: "operation \<Rightarrow> world \<Rightarrow> world" where
  "log_operation operation w =
     (let (t, w1) = now w
      in w1\<lparr>audit_log := Some (log_lines w1 @ [(t, operation)])\<rparr>)"

definition add_contact :: "ref \<Rightarrow> world \<Rightarrow> unit result" where
  "add_contact r w =
     (let w1 = w\<lparr>contacts_list := contacts_list w @ [r]\<rparr>;
          c = objects w1 r
      in Inr ((), log_operation (Added_contact (first_name c) (last_name c)) w1))"

text \<open>\<open>list.remove(x)\<close>: the first element equal to \<open>x\<close> goes; \<open>None\<close> stands for the
  ValueError raised when there is none. The test \<open>P\<close> is "the same object or \<open>__eq__\<close>".\<close>

fun list_remove :: "('a \<Rightarrow> bool) \<Rightarrow> 'a list \<Rightarrow> 'a list option" where
  "list_remove P [] = None"
| "list_remove P (x # xs) =
     (if P x then Some xs
      else (case list_remove P xs of None \<Rightarrow> None | Some ys \<Rightarrow> Some (x # ys)))"

definition full_name_of :: "contact \<Rightarrow> string" where
  "full_name_of c = lower (first_name c @ '' '' @ last_name c)"

definition same_object_or_eq :: "world \<Rightarrow> ref \<Rightarrow> ref \<Rightarrow> bool" where
  "same_object_or_eq w x r = (r = x \<or> contact_eq (objects w r) (objects w x))"

definition delete_contact :: "string \<Rightarrow> world \<Rightarrow> unit result" where
  "delete_contact full_name w =
     (let full_name = lower full_name
      in case find (\<lambda>r. full_name_of (objects w r) = full_name) (contacts_list w) of
           Some contact_to_delete \<Rightarrow>
             (case list_remove (same_object_or_eq w contact_to_delete) (contacts_list w) of
                None \<Rightarrow> Inl (ValueError, w)
              | Some cs \<Rightarrow>
                  Inr ((), log_operation
                             (Deleted_contact (full_name_of (objects w contact_to_delete)))
                             (print (Print_deleted full_name) (w\<lparr>contacts_list := cs\<rparr>))))
         | None \<Rightarrow>
             Inr ((), log_operation (Failed_to_delete_contact full_name)
                        (print (Print_no_contact_found full_name) w)))"

text \<open>\<open>row[i]\<close> raises IndexError out of range.\<close>

definition index :: "'a list \<Rightarrow> nat \<Rightarrow> error + 'a" where
  "index xs i = (if i < length xs then Inr (xs ! i) else Inl IndexError)"

text \<open>The five assignments at the head of both batch loops.\<close>

definition read_row ::
  "string list \<Rightarrow> error + (string \<times> string \<times> string \<times> string option \<times> string option)"
where
  "read_row row =
     (case index row 0 of Inl e \<Rightarrow> Inl e | Inr fn \<Rightarrow>
      case index row 1 of Inl e \<Rightarrow> Inl e | Inr ln \<Rightarrow>
      case index row 2 of Inl e \<Rightarrow> Inl e | Inr ph \<Rightarrow>
        Inr (fn, ln, ph,
             (if length row > 3 then Some (row ! 3) else None),
             (if length row > 4 then Some (row ! 4) else None)))"

fun batch_add_rows :: "string list list \<Rightarrow> world \<Rightarrow> (error \<times> world) + world" where
  "batch_add_rows [] w = Inr w"
| "batch_add_rows (row # rows) w =
     (case read_row row of
        Inl e \<Rightarrow> Inl (e, w)
      | Inr (fn, ln, ph, em, ad) \<Rightarrow>
          (let (r, w1) = new_contact fn ln ph em ad w
           in batch_add_rows rows (w1\<lparr>contacts_list := contacts_list w1 @ [r]\<rparr>)))"

text \<open>
  \<open>batch_add_contacts\<close>. A data file is given by the rows \<open>csv.reader\<close> yields for it
  (\<open>None\<close>: no such file under \<open>data/\<close>). \<open>next(csv_reader, None)\<close> takes the first row
  away, whatever it holds.
\<close>

definition batch_add_contacts :: "string \<Rightarrow> world \<Rightarrow> unit result" where
  "batch_add_contacts filename w =
     (case data_files w filename of
        None \<Rightarrow> Inr ((), w)
      | Some rows \<Rightarrow>
          (case batch_add_rows (drop 1 rows) w of
             Inl ew \<Rightarrow> Inl ew
           | Inr w1 \<Rightarrow>
               Inr ((), log_operation (Batch_added_contacts filename)
                          (print Print_batch_added w1))))"

text \<open>The contact built for a row of \<open>batch_delete_contacts\<close> is only compared with, never
  kept: it stays a value. \<open>remove\<close> failing is caught and reported for that row.\<close>

fun batch_delete_rows :: "string list list \<Rightarrow> world \<Rightarrow> (error \<times> world) + world" where
  "batch_delete_rows [] w = Inr w"
| "batch_delete_rows (row # rows) w =
     (case read_row row of
        Inl e \<Rightarrow> Inl (e, w)
      | Inr (fn, ln, ph, em, ad) \<Rightarrow>
          (let (c, w1) = Contact_init fn ln ph em ad w
           in case list_remove (\<lambda>r. contact_eq (objects w1 r) c) (contacts_list w1) of
                Some cs \<Rightarrow> batch_delete_rows rows (w1\<lparr>contacts_list := cs\<rparr>)
              | None \<Rightarrow>
                  batch_delete_rows rows
                    (print (Print_does_not_exist (first_name c) (last_name c)) w1)))"

definition batch_delete_contacts :: "string \<Rightarrow> world \<Rightarrow> unit result" where
  "batch_delete_contacts filename w =
     (case data_files w filename of
        None \<Rightarrow> Inr ((), w)
      | Some rows \<Rightarrow>
          (case batch_delete_rows (drop 1 rows) w of
             Inl ew \<Rightarrow> Inl ew
           | Inr w1 \<Rightarrow>
               Inr ((), log_operation (Batch_deleted_contacts filename)
                          (print Print_batch_removed w1))))"

text \<open>
  \<open>update_contact\<close>. The two validations return early; then the five fields are assigned
  directly and the operation is logged. With a contact object and string arguments
  nothing in the \<open>try\<close> block raises, so the \<open>except\<close> branch has no counterpart here.
\<close>

definition update_contact ::
  "ref \<Rightarrow> string option \<Rightarrow> string option \<Rightarrow> string option \<Rightarrow> string option \<Rightarrow> string option
     \<Rightarrow> world \<Rightarrow> unit result"
where
  "update_contact r fn ln ph em ad w =
     (let c = objects w r;
          old_values = values_of c
      in if truthy ph \<and> \<not> is_valid_phone (the ph) then
           Inr ((), print Print_invalid_phone w)
         else if truthy em \<and> \<not> is_valid_email (the em) then
           Inr ((), print Print_invalid_email w)
         else
           (let c1 = c\<lparr>first_name := or_keep fn (first_name c),
                        last_name := or_keep ln (last_name c),
                        phone_number := or_keep ph (phone_number c),
                        email := or_keep_opt em (email c),
                        address := or_keep_opt ad (address c)\<rparr>;
                w1 = w\<lparr>objects := (objects w)(r := c1)\<rparr>
            in Inr ((), print Print_updated
                          (log_operation (Updated_contact old_values c1) w1))))"



text \<open>
  \<open>re.search\<close> belongs to Python's library and is a parameter of the model:
  \<open>re_search pattern s\<close> is \<open>None\<close> where the call raises (a pattern that does not compile),
  else whether a match was found. \<open>py_or\<close> is Python's \<open>or\<close>: the right operand is
  evaluated only when the left one is false.
\<close>

definition py_or :: "bool option \<Rightarrow> bool option \<Rightarrow> bool option" where
  "py_or a b = (case a of None \<Rightarrow> None | Some True \<Rightarrow> Some True | Some False \<Rightarrow> b)"

definition contact_matches ::
  "(string \<Rightarrow> string \<Rightarrow> bool option) \<Rightarrow> string \<Rightarrow> contact \<Rightarrow> bool option"
where
  "contact_matches re_search search_string c =
     py_or (re_search search_string (lower (first_name c)))
       (py_or (re_search search_string (lower (last_name c)))
         (py_or (re_search search_string (full_name_of c))
                (re_search search_string (phone_number c))))"

fun search_loop ::
  "(string \<Rightarrow> string \<Rightarrow> bool option) \<Rightarrow> string \<Rightarrow> timestamp option \<Rightarrow> timestamp option
     \<Rightarrow> (ref \<Rightarrow> contact) \<Rightarrow> ref list \<Rightarrow> ref list \<Rightarrow> error + ref list"
where
  "search_loop re_search q start_date end_date objs [] matches = Inr matches"
| "search_loop re_search q start_date end_date objs (r # rs) matches =
     (case contact_matches re_search q (objs r) of
        None \<Rightarrow> Inl RegexError
      | Some False \<Rightarrow> search_loop re_search q start_date end_date objs rs matches
      | Some True \<Rightarrow>
          (if start_date \<noteq> None \<and> end_date \<noteq> None then
             (if the start_date \<le> time_created (objs r) \<and> time_created (objs r) \<le> the end_date
              then search_loop re_search q start_date end_date objs rs (matches @ [r])
              else search_loop re_search q start_date end_date objs rs matches)
           else search_loop re_search q start_date end_date objs rs (matches @ [r])))"

definition search_contacts ::
  "(string \<Rightarrow> string \<Rightarrow> bool option) \<Rightarrow> string \<Rightarrow> timestamp option \<Rightarrow> timestamp option
     \<Rightarrow> world \<Rightarrow> (ref list) result"
where
  "search_contacts re_search search_string start_date end_date w =
     (let search_string = lower search_string
      in case search_loop re_search search_string start_date end_date (objects w)
                (contacts_list w) [] of
           Inl e \<Rightarrow> Inl (e, w)
         | Inr matches \<Rightarrow>
             (let w1 = (if matches \<noteq> []
                        then w\<lparr>stdout := stdout w @
                               concat (map (\<lambda>r. [Print_contact (objects w r), Print_blank]) matches)\<rparr>
                        else print (Print_no_matches search_string) w)
              in Inr (matches,
                      log_operation (Searched_for_contacts search_string (length matches)) w1)))"

text \<open>
  \<open>sort_contacts\<close>. \<open>list.sort\<close> is stable and first computes the key of every element;
  a key that raises leaves the list as it was. \<open>x.last_name[0]\<close> raises IndexError on an
  empty last name; otherwise it is the string of the first character.
\<close>

definition sort_contacts :: "string \<Rightarrow> world \<Rightarrow> unit result" where
  "sort_contacts sort_type w =
     (if sort_type = ''alphabetical'' then
        Inr ((), log_operation Sorted_alphabetically
                   (w\<lparr>contacts_list :=
                        sort_key (\<lambda>r. last_name (objects w r)) (contacts_list w)\<rparr>))
      else if sort_type = ''group'' then
        (if \<exists>r \<in> set (contacts_list w). last_name (objects w r) = [] then
           Inl (IndexError, w)
         else
           Inr ((), log_operation Grouped_by_initial
                      (w\<lparr>contacts_list :=
                           sort_key (\<lambda>r. take 1 (last_name (objects w r))) (contacts_list w)\<rparr>)))
      else
        Inr ((), log_operation Invalid_sort_type (print Print_invalid_sort w)))"

text \<open>\<open>view_audit_log\<close> opens the file for reading: a missing file raises. It prints the
  header, then every line of the file, stripped.\<close>

definition view_audit_log :: "world \<Rightarrow> unit result" where
  "view_audit_log w =
     (case audit_log w of
        None \<Rightarrow> Inl (FileNotFoundError, w)
      | Some ls \<Rightarrow>
          Inr ((), w\<lparr>stdout := stdout w @ [Print_audit_header] @
                 map (\<lambda>l. Print_audit_line (strip l))
                   (split_lines False [] (file_text ls))\<rparr>))"


section \<open>Reading results, and the worlds used as examples\<close>

definition raised :: "'a result \<Rightarrow> error option" where
  "raised res = (case res of Inl (e, w) \<Rightarrow> Some e | Inr (v, w) \<Rightarrow> None)"

definition world_after :: "'a result \<Rightarrow> world" where
  "world_after res = (case res of Inl (e, w) \<Rightarrow> w | Inr (v, w) \<Rightarrow> w)"

definition returned :: "(ref list) result \<Rightarrow> ref list" where
  "returned res = (case res of Inl (e, w) \<Rightarrow> [] | Inr (v, w) \<Rightarrow> v)"

text \<open>The five fields a batch row gives to the constructor.\<close>

definition row_values :: "string list \<Rightarrow> values" where
  "row_values row =
     \<lparr>first_name = row ! 0, last_name = row ! 1, phone_number = row ! 2,
      email = (if length row > 3 then Some (row ! 3) else None),
      address = (if length row > 4 then Some (row ! 4) else None)\<rparr>"

definition no_contact :: contact where
  "no_contact =
     \<lparr>first_name = [], last_name = [], phone_number = [], email = None, address = None,
      time_created = 0, time_updated = 0, update_history = []\<rparr>"

text \<open>A clock whose first reading is the last microsecond of a second.\<close>

definition example_clock :: "nat \<Rightarrow> timestamp" where
  "example_clock k = 999999 + k"

definition example_files :: "string \<Rightarrow> string list list option" where
  "example_files f =
     (if f = ''contacts.csv'' then
        Some [[''first_name'', ''last_name'', ''phone_number''],
              [''Ann'', ''Lee'', ''(555) 555-5555''],
              [''Bob'', ''Ray'', ''(555) 555-0000'', ''bob@example.com'']]
      else if f = ''plain.csv'' then Some [[''Ann'', ''Lee'', ''(555) 555-5555'']]
      else if f = ''short.csv'' then Some [[''first_name'', ''last_name''], [''Ann'', ''Lee'']]
      else None)"

definition initial_world :: world where
  "initial_world =
     \<lparr>contacts_list = [], objects = (\<lambda>r. no_contact), next_ref = 0, audit_log = None,
      data_files = example_files, stdout = [], clock = example_clock, ticks = 0\<rparr>"

text \<open>What \<open>phonebook.add_contact(Contact(fn, ln, ph))\<close> leaves.\<close>

definition with_contact :: "string \<Rightarrow> string \<Rightarrow> string \<Rightarrow> world \<Rightarrow> world" where
  "with_contact fn ln ph w =
     (let (r, w1) = new_contact fn ln ph None None w in world_after (add_contact r w1))"

definition ann_world :: world where
  "ann_world = with_contact ''Ann'' ''Lee'' ''(555) 555-5555'' initial_world"

text \<open>A contact whose first name holds a line feed between \<open>A\<close> and \<open>B\<close>.\<close>

definition two_line_world :: world where
  "two_line_world =
     with_contact [CHR ''A'', CHR 0x0A, CHR ''B''] ''Lee'' ''(555) 555-5555'' initial_world"

definition nameless_world :: world where
  "nameless_world = with_contact ''Ann'' [] ''(555) 555-5555'' initial_world"

text \<open>A stand-in for \<open>re.search\<close> in examples: the empty pattern matches everything, an
  opening parenthesis alone does not compile, any other pattern is looked for literally.\<close>

fun is_substring :: "string \<Rightarrow> string \<Rightarrow> bool" where
  "is_substring p [] = (p = [])"
| "is_substring p (c # cs) = (take (length p) (c # cs) = p \<or> is_substring p cs)"

definition example_re_search :: "string \<Rightarrow> string \<Rightarrow> bool option" where
  "example_re_search p s = (if p = ''('' then None else Some (is_substring p s))"

section \<open>Basic facts\<close>

lemma log_operation_fields [simp]:
  "contacts_list (log_operation op w) = contacts_list w"
  "objects (log_operation op w) = objects w"
  "next_ref (log_operation op w) = next_ref w"
  "data_files (log_operation op w) = data_files w"
  "stdout (log_operation op w) = stdout w"
  "clock (log_operation op w) = clock w"
  "ticks (log_operation op w) = Suc (ticks w)"
  "log_lines (log_operation op w) = log_lines w @ [(clock w (ticks w), op)]"
  by (simp_all add: log_operation_def now_def log_lines_def)

lemma print_fields [simp]:
  "contacts_list (print m w) = contacts_list w"
  "objects (print m w) = objects w"
  "next_ref (print m w) = next_ref w"
  "data_files (print m w) = data_files w"
  "stdout (print m w) = stdout w @ [m]"
  "clock (print m w) = clock w"
  "ticks (print m w) = ticks w"
  "audit_log (print m w) = audit_log w"
  "log_lines (print m w) = log_lines w"
  by (simp_all add: print_def log_lines_def)

lemma world_after_Inr [simp]: "world_after (Inr (v, w)) = w"
  by (simp add: world_after_def)

lemma world_after_Inl [simp]: "world_after (Inl (e, w)) = w"
  by (simp add: world_after_def)

lemma raised_Inr [simp]: "raised (Inr (v, w)) = None"
  by (simp add: raised_def)

lemma raised_Inl [simp]: "raised (Inl (e, w)) = Some e"
  by (simp add: raised_def)

lemma returned_Inr [simp]: "returned (Inr (v, w)) = v"
  by (simp add: returned_def)

lemma lower_Nil [simp]: "lower [] = []"
  by (simp add: lower_def)

lemma contact_eq_values: "contact_eq a b \<longleftrightarrow> values_of a = values_of b"
  by (auto simp: contact_eq_def values_of_def)

lemma log_lines_update [simp]:
  "log_lines (w\<lparr>contacts_list := cs\<rparr>) = log_lines w"
  "log_lines (w\<lparr>objects := os\<rparr>) = log_lines w"
  "log_lines (w\<lparr>next_ref := n\<rparr>) = log_lines w"
  "log_lines (w\<lparr>stdout := out\<rparr>) = log_lines w"
  "log_lines (w\<lparr>ticks := k\<rparr>) = log_lines w"
  by (simp_all add: log_lines_def)

lemma lower_examples:
  "lower ''ann LEE'' = ''ann lee''"
  "lower ''Bob Ray'' = ''bob ray''"
  "lower ''Ann Lee'' = ''ann lee''"
  by code_simp+

lemma initial_world_fields:
  "contacts_list initial_world = []"
  "next_ref initial_world = 0"
  "data_files initial_world = example_files"
  "log_lines initial_world = []"
  "stdout initial_world = []"
  by (simp_all add: initial_world_def log_lines_def)

lemma example_files_contacts:
  "example_files ''contacts.csv'' =
     Some [[''first_name'', ''last_name'', ''phone_number''],
           [''Ann'', ''Lee'', ''(555) 555-5555''],
           [''Bob'', ''Ray'', ''(555) 555-0000'', ''bob@example.com'']]"
  by (simp add: example_files_def)

lemma example_files_plain:
  "example_files ''plain.csv'' = Some [[''Ann'', ''Lee'', ''(555) 555-5555'']]"
  by (simp add: example_files_def)

lemma valid_phone_example: "is_valid_phone ''(555) 555-5555''"
  by code_simp

lemma invalid_phone_example: "\<not> is_valid_phone ''555-1234''"
  by code_simp

lemma valid_email_example: "is_valid_email ''ann@example.com''"
  by code_simp

lemma invalid_email_example: "\<not> is_valid_email ''ann.example.com''"
  by code_simp

lemma ann_world_fields:
  "contacts_list ann_world = [0]"
  "first_name (objects ann_world 0) = ''Ann''"
  "last_name (objects ann_world 0) = ''Lee''"
  "update_history (objects ann_world 0) = []"
  "log_lines ann_world = [(1000001, Added_contact ''Ann'' ''Lee'')]"
  by (simp_all add: ann_world_def with_contact_def new_contact_def Contact_init_def now_def
      add_contact_def initial_world_def example_clock_def log_lines_def log_operation_def)

section \<open>Contact\<close>

text \<open>
  C9. A freshly constructed contact has an empty history, but its two time fields come
  from two readings of the clock: when a second ends between them, \<open>time_updated\<close> is one
  second after \<open>time_created\<close>. Here the readings are 0.999999 s and 1.000000 s.
\<close>

theorem Contact_init_reads_clock_twice:
  "update_history (fst (Contact_init ''Ann'' ''Lee'' ''(555) 555-5555'' None None initial_world)) = [] \<and>
   time_created (fst (Contact_init ''Ann'' ''Lee'' ''(555) 555-5555'' None None initial_world)) = 0 \<and>
   time_updated (fst (Contact_init ''Ann'' ''Lee'' ''(555) 555-5555'' None None initial_world)) = 1000000"
  by (simp add: Contact_init_def now_def replace_microsecond_0_def initial_world_def
      example_clock_def)

lemma Contact_init_history: "update_history (fst (Contact_init fn ln ph em ad w)) = []"
  by (simp add: Contact_init_def now_def)

lemma Contact_init_same_second:
  "clock w (ticks w) div 1000000 = clock w (Suc (ticks w)) div 1000000 \<Longrightarrow>
   time_updated (fst (Contact_init fn ln ph em ad w)) =
   time_created (fst (Contact_init fn ln ph em ad w))"
  by (simp add: Contact_init_def now_def replace_microsecond_0_def minus_mod_eq_div_mult)

lemma Contact_update_history:
  "update_history (objects (Contact_update r fn ln ph em ad w) r) =
   update_history (objects w r) @
     [\<lparr>entry_time_updated = replace_microsecond_0 (clock w (ticks w)),
       old_values = values_of (objects w r),
       new_values = values_of (objects (Contact_update r fn ln ph em ad w) r)\<rparr>]"
  by (simp add: Contact_update_def now_def Let_def values_of_def)

section \<open>Updating through the phone book\<close>

lemma update_contact_invalid:
  assumes "(\<exists>p. ph = Some p \<and> p \<noteq> [] \<and> \<not> is_valid_phone p) \<or>
           (\<exists>e. em = Some e \<and> e \<noteq> [] \<and> \<not> is_valid_email e)"
  shows "raised (update_contact c fn ln ph em ad w) = None \<and>
         objects (world_after (update_contact c fn ln ph em ad w)) = objects w \<and>
         contacts_list (world_after (update_contact c fn ln ph em ad w)) = contacts_list w \<and>
         audit_log (world_after (update_contact c fn ln ph em ad w)) = audit_log w \<and>
         stdout (world_after (update_contact c fn ln ph em ad w)) =
           stdout w @ [if truthy ph \<and> \<not> is_valid_phone (the ph)
                       then Print_invalid_phone else Print_invalid_email]"
  using assms by (auto simp: update_contact_def truthy_def Let_def)

lemma update_contact_success:
  assumes "\<forall>p. ph = Some p \<and> p \<noteq> [] \<longrightarrow> is_valid_phone p"
      and "\<forall>e. em = Some e \<and> e \<noteq> [] \<longrightarrow> is_valid_email e"
  shows "raised (update_contact c fn ln ph em ad w) = None \<and>
         contacts_list (world_after (update_contact c fn ln ph em ad w)) = contacts_list w \<and>
         (\<forall>r. r \<noteq> c \<longrightarrow>
            objects (world_after (update_contact c fn ln ph em ad w)) r = objects w r) \<and>
         time_created (objects (world_after (update_contact c fn ln ph em ad w)) c) =
           time_created (objects w c) \<and>
         time_updated (objects (world_after (update_contact c fn ln ph em ad w)) c) =
           time_updated (objects w c) \<and>
         update_history (objects (world_after (update_contact c fn ln ph em ad w)) c) =
           update_history (objects w c) \<and>
         values_of (objects (world_after (update_contact c fn ln ph em ad w)) c) =
           \<lparr>first_name = or_keep fn (first_name (objects w c)),
            last_name = or_keep ln (last_name (objects w c)),
            phone_number = or_keep ph (phone_number (objects w c)),
            email = or_keep_opt em (email (objects w c)),
            address = or_keep_opt ad (address (objects w c))\<rparr>"
proof -
  have ok: "\<not> (truthy ph \<and> \<not> is_valid_phone (the ph))"
    "\<not> (truthy em \<and> \<not> is_valid_email (the em))"
    using assms by (auto simp: truthy_def split: option.splits)
  show ?thesis
    using ok by (auto simp: update_contact_def Let_def values_of_def)
qed

lemma update_contact_logs:
  assumes "\<forall>p. ph = Some p \<and> p \<noteq> [] \<longrightarrow> is_valid_phone p"
      and "\<forall>e. em = Some e \<and> e \<noteq> [] \<longrightarrow> is_valid_email e"
  shows "log_lines (world_after (update_contact c fn ln ph em ad w)) =
         log_lines w @
           [(clock w (ticks w),
             Updated_contact (values_of (objects w c))
               (objects (world_after (update_contact c fn ln ph em ad w)) c))]"
proof -
  have ok: "\<not> (truthy ph \<and> \<not> is_valid_phone (the ph))"
    "\<not> (truthy em \<and> \<not> is_valid_email (the em))"
    using assms by (auto simp: truthy_def split: option.splits)
  show ?thesis
    using ok by (auto simp: update_contact_def Let_def log_lines_def log_operation_def now_def)
qed

text \<open>
  C1. A successful update through the phone book assigns the fields itself and never calls
  \<open>Contact.update\<close>: Ann's first name becomes Bob and her history stays empty, where
  \<open>Contact.update\<close> with the same arguments would have appended one entry.
\<close>

theorem update_contact_appends_no_history:
  "raised (update_contact 0 (Some ''Bob'') None None None None ann_world) = None \<and>
   first_name (values_of (objects (world_after
      (update_contact 0 (Some ''Bob'') None None None None ann_world)) 0)) = ''Bob'' \<and>
   update_history (objects (world_after
      (update_contact 0 (Some ''Bob'') None None None None ann_world)) 0) = [] \<and>
   length (update_history (objects
      (Contact_update 0 (Some ''Bob'') None None None None ann_world) 0)) = 1"
proof -
  have "\<forall>p. (None :: string option) = Some p \<and> p \<noteq> [] \<longrightarrow> is_valid_phone p"
    and "\<forall>e. (None :: string option) = Some e \<and> e \<noteq> [] \<longrightarrow> is_valid_email e"
    by simp_all
  from update_contact_success [OF this, of 0 "Some ''Bob''" None None ann_world]
  show ?thesis
    by (simp add: ann_world_fields Contact_update_history or_keep_def)
qed

text \<open>
  C3, as stated, fails for a phone number supplied as the empty string: it does not match
  the phone pattern, yet the truth test in front of the validation lets it through, so
  the update goes on, changes the other fields, logs the update and prints success.
\<close>

theorem update_contact_accepts_empty_phone:
  "\<not> is_valid_phone [] \<and>
   raised (update_contact 0 (Some ''Bob'') None (Some []) None None ann_world) = None \<and>
   first_name (objects ann_world 0) = ''Ann'' \<and>
   first_name (values_of (objects (world_after
      (update_contact 0 (Some ''Bob'') None (Some []) None None ann_world)) 0)) = ''Bob'' \<and>
   length (log_lines (world_after
      (update_contact 0 (Some ''Bob'') None (Some []) None None ann_world))) =
     Suc (length (log_lines ann_world)) \<and>
   stdout (world_after (update_contact 0 (Some ''Bob'') None (Some []) None None ann_world)) =
     stdout ann_world @ [Print_updated]"
proof -
  have h1: "\<forall>p. Some [] = Some p \<and> p \<noteq> [] \<longrightarrow> is_valid_phone p"
    and h2: "\<forall>e. (None :: string option) = Some e \<and> e \<noteq> [] \<longrightarrow> is_valid_email e"
    by simp_all
  have "\<not> is_valid_phone []"
    by (simp add: is_valid_phone_def fullmatch_def phone_pattern_def)
  moreover have "stdout (world_after
      (update_contact 0 (Some ''Bob'') None (Some []) None None ann_world)) =
     stdout ann_world @ [Print_updated]"
    by (simp add: update_contact_def truthy_def Let_def)
  ultimately show ?thesis
    using update_contact_success [OF h1 h2, of 0 "Some ''Bob''" None None ann_world]
      update_contact_logs [OF h1 h2, of 0 "Some ''Bob''" None None ann_world]
    by (simp add: ann_world_fields or_keep_def)
qed

text \<open>
  C3, amended. When a phone number is supplied non-empty and does not match the phone
  pattern, or an email is supplied non-empty and does not match the email pattern, the
  update returns without touching anything but the console: the object store (so every
  field and every history), the contact list and the audit log are as before, and the
  message printed names the failed validation, the phone first.
\<close>

theorem update_contact_rejects_invalid:
  assumes "(\<exists>p. ph = Some p \<and> p \<noteq> [] \<and> \<not> is_valid_phone p) \<or>
           (\<exists>e. em = Some e \<and> e \<noteq> [] \<and> \<not> is_valid_email e)"
  shows "raised (update_contact c fn ln ph em ad w) = None \<and>
         objects (world_after (update_contact c fn ln ph em ad w)) = objects w \<and>
         contacts_list (world_after (update_contact c fn ln ph em ad w)) = contacts_list w \<and>
         audit_log (world_after (update_contact c fn ln ph em ad w)) = audit_log w \<and>
         stdout (world_after (update_contact c fn ln ph em ad w)) =
           stdout w @ [if truthy ph \<and> \<not> is_valid_phone (the ph)
                       then Print_invalid_phone else Print_invalid_email]"
  using assms by (rule update_contact_invalid)

theorem update_contact_rejects_invalid_witness:
  "((\<exists>p. Some ''555-1234'' = Some p \<and> p \<noteq> [] \<and> \<not> is_valid_phone p) \<or>
    (\<exists>e. (None :: string option) = Some e \<and> e \<noteq> [] \<and> \<not> is_valid_email e)) \<and>
   objects (world_after (update_contact 0 (Some ''Bob'') None (Some ''555-1234'') None None
      ann_world)) = objects ann_world \<and>
   audit_log (world_after (update_contact 0 (Some ''Bob'') None (Some ''555-1234'') None None
      ann_world)) = audit_log ann_world \<and>
   stdout (world_after (update_contact 0 (Some ''Bob'') None (Some ''555-1234'') None None
      ann_world)) = stdout ann_world @ [Print_invalid_phone] \<and>
   ((\<exists>p. (None :: string option) = Some p \<and> p \<noteq> [] \<and> \<not> is_valid_phone p) \<or>
    (\<exists>e. Some ''ann.example.com'' = Some e \<and> e \<noteq> [] \<and> \<not> is_valid_email e)) \<and>
   objects (world_after (update_contact 0 None None None (Some ''ann.example.com'') None
      ann_world)) = objects ann_world \<and>
   stdout (world_after (update_contact 0 None None None (Some ''ann.example.com'') None
      ann_world)) = stdout ann_world @ [Print_invalid_email]"
proof -
  have h1: "(\<exists>p. Some ''555-1234'' = Some p \<and> p \<noteq> [] \<and> \<not> is_valid_phone p) \<or>
    (\<exists>e. (None :: string option) = Some e \<and> e \<noteq> [] \<and> \<not> is_valid_email e)"
    using invalid_phone_example by simp
  have h2: "(\<exists>p. (None :: string option) = Some p \<and> p \<noteq> [] \<and> \<not> is_valid_phone p) \<or>
    (\<exists>e. Some ''ann.example.com'' = Some e \<and> e \<noteq> [] \<and> \<not> is_valid_email e)"
    using invalid_email_example by simp
  show ?thesis
    using h1 h2
      update_contact_rejects_invalid [OF h1, of 0 "Some ''Bob''" None None ann_world]
      update_contact_rejects_invalid [OF h2, of 0 None None None ann_world]
      invalid_phone_example
    by (simp add: truthy_def)
qed

text \<open>
  C10. An update that passes validation, on any contact object \<open>c\<close>, in the list or not,
  leaves the contact list as it is and every other object as it is; of \<open>c\<close> it changes
  nothing but the five user-supplied fields, each replaced when its argument is supplied
  and non-empty.
\<close>

theorem update_contact_frame:
  assumes "\<forall>p. ph = Some p \<and> p \<noteq> [] \<longrightarrow> is_valid_phone p"
      and "\<forall>e. em = Some e \<and> e \<noteq> [] \<longrightarrow> is_valid_email e"
  shows "raised (update_contact c fn ln ph em ad w) = None \<and>
         contacts_list (world_after (update_contact c fn ln ph em ad w)) = contacts_list w \<and>
         (\<forall>r. r \<noteq> c \<longrightarrow>
            objects (world_after (update_contact c fn ln ph em ad w)) r = objects w r) \<and>
         time_created (objects (world_after (update_contact c fn ln ph em ad w)) c) =
           time_created (objects w c) \<and>
         time_updated (objects (world_after (update_contact c fn ln ph em ad w)) c) =
           time_updated (objects w c) \<and>
         update_history (objects (world_after (update_contact c fn ln ph em ad w)) c) =
           update_history (objects w c) \<and>
         values_of (objects (world_after (update_contact c fn ln ph em ad w)) c) =
           \<lparr>first_name = or_keep fn (first_name (objects w c)),
            last_name = or_keep ln (last_name (objects w c)),
            phone_number = or_keep ph (phone_number (objects w c)),
            email = or_keep_opt em (email (objects w c)),
            address = or_keep_opt ad (address (objects w c))\<rparr>"
  using assms by (rule update_contact_success)

theorem update_contact_frame_witness:
  "is_valid_phone ''(555) 555-5555'' \<and> is_valid_email ''ann@example.com'' \<and>
   contacts_list (world_after (update_contact 7 (Some ''Bob'') None (Some ''(555) 555-5555'')
      (Some ''ann@example.com'') None ann_world)) = [0] \<and>
   objects (world_after (update_contact 7 (Some ''Bob'') None (Some ''(555) 555-5555'')
      (Some ''ann@example.com'') None ann_world)) 0 = objects ann_world 0 \<and>
   first_name (values_of (objects (world_after (update_contact 7 (Some ''Bob'') None
      (Some ''(555) 555-5555'') (Some ''ann@example.com'') None ann_world)) 7)) = ''Bob''"
proof -
  have h1: "\<forall>p. Some ''(555) 555-5555'' = Some p \<and> p \<noteq> [] \<longrightarrow> is_valid_phone p"
    using valid_phone_example by simp
  have h2: "\<forall>e. Some ''ann@example.com'' = Some e \<and> e \<noteq> [] \<longrightarrow> is_valid_email e"
    using valid_email_example by simp
  show ?thesis
    using valid_phone_example valid_email_example
      update_contact_frame [OF h1 h2, of 7 "Some ''Bob''" None None ann_world]
    by (simp add: ann_world_fields or_keep_def)
qed

section \<open>Searching\<close>

lemma search_loop_all:
  assumes "\<forall>s. re_search q s = Some True"
  shows "search_loop re_search q None None objs rs matches = Inr (matches @ rs)"
proof (induction rs arbitrary: matches)
  case Nil
  show ?case by simp
next
  case (Cons r rs)
  have "contact_matches re_search q (objs r) = Some True"
    using assms by (simp add: contact_matches_def py_or_def)
  then show ?case using Cons.IH by simp
qed

lemma is_substring_Nil [simp]: "is_substring [] s"
  by (cases s) simp_all

text \<open>
  C8. Given that \<open>re.search\<close> finds the empty pattern in every string, a search for the
  empty query with no time bounds returns normally, returns the contact list itself (every
  contact, in the list's order), leaves the list as it is and logs the query with a match
  count equal to the size of the list.
\<close>

theorem search_empty_query_returns_all:
  assumes "\<forall>s. re_search [] s = Some True"
  shows "raised (search_contacts re_search [] None None w) = None \<and>
         returned (search_contacts re_search [] None None w) = contacts_list w \<and>
         length (returned (search_contacts re_search [] None None w)) =
           length (contacts_list w) \<and>
         contacts_list (world_after (search_contacts re_search [] None None w)) =
           contacts_list w \<and>
         log_lines (world_after (search_contacts re_search [] None None w)) =
           log_lines w @
             [(clock w (ticks w), Searched_for_contacts [] (length (contacts_list w)))]"
  using search_loop_all [of re_search "[]" "objects w" "contacts_list w" "[]"] assms
  by (simp add: search_contacts_def Let_def print_def log_operation_def now_def log_lines_def)

theorem search_empty_query_returns_all_witness:
  "(\<forall>s. example_re_search [] s = Some True) \<and>
   returned (search_contacts example_re_search [] None None ann_world) = [0] \<and>
   log_lines (world_after (search_contacts example_re_search [] None None ann_world)) =
     log_lines ann_world @
       [(clock ann_world (ticks ann_world), Searched_for_contacts [] 1)]"
proof -
  have h: "\<forall>s. example_re_search [] s = Some True"
    by (simp add: example_re_search_def)
  show ?thesis
    using h search_empty_query_returns_all [of example_re_search ann_world]
    by (simp add: ann_world_fields)
qed

section \<open>Deleting one contact\<close>

lemma list_remove_first:
  assumes "find P xs = Some x" "Q x" "\<forall>y. Q y \<longrightarrow> P y"
  shows "list_remove Q xs = Some (takeWhile (\<lambda>y. \<not> P y) xs @ tl (dropWhile (\<lambda>y. \<not> P y) xs))"
  using assms(1)
proof (induction xs)
  case Nil
  then show ?case by simp
next
  case (Cons a xs)
  show ?case
  proof (cases "P a")
    case True
    with Cons.prems have "x = a" by simp
    with True assms(2) show ?thesis by simp
  next
    case False
    with assms(3) have "\<not> Q a" by blast
    moreover from False Cons.prems have "find P xs = Some x" by simp
    ultimately show ?thesis using False Cons.IH by simp
  qed
qed

lemma find_Some_holds: "find P xs = Some x \<Longrightarrow> P x \<and> x \<in> set xs"
  by (induction xs) (auto split: if_splits)

lemma delete_contact_eq:
  "delete_contact full_name w =
     (if \<exists>r \<in> set (contacts_list w). full_name_of (objects w r) = lower full_name then
        Inr ((), log_operation (Deleted_contact (lower full_name))
                   (print (Print_deleted (lower full_name))
                      (w\<lparr>contacts_list :=
                           takeWhile (\<lambda>r. full_name_of (objects w r) \<noteq> lower full_name)
                             (contacts_list w) @
                           tl (dropWhile (\<lambda>r. full_name_of (objects w r) \<noteq> lower full_name)
                             (contacts_list w))\<rparr>)))
      else
        Inr ((), log_operation (Failed_to_delete_contact (lower full_name))
                   (print (Print_no_contact_found (lower full_name)) w)))"
proof (cases "find (\<lambda>r. full_name_of (objects w r) = lower full_name) (contacts_list w)")
  case None
  then have "\<not> (\<exists>r \<in> set (contacts_list w). full_name_of (objects w r) = lower full_name)"
    by (simp add: find_None_iff)
  with None show ?thesis by (simp add: delete_contact_def Let_def)
next
  case (Some x)
  then have x: "full_name_of (objects w x) = lower full_name" "x \<in> set (contacts_list w)"
    using find_Some_holds [OF Some] by simp_all
  have q: "same_object_or_eq w x x" by (simp add: same_object_or_eq_def)
  have qp: "\<forall>y. same_object_or_eq w x y \<longrightarrow> full_name_of (objects w y) = lower full_name"
    using x(1) by (auto simp: same_object_or_eq_def contact_eq_def full_name_of_def)
  have "list_remove (same_object_or_eq w x) (contacts_list w) =
        Some (takeWhile (\<lambda>r. \<not> full_name_of (objects w r) = lower full_name) (contacts_list w) @
              tl (dropWhile (\<lambda>r. \<not> full_name_of (objects w r) = lower full_name) (contacts_list w)))"
    by (rule list_remove_first [OF Some q qp])
  with Some x show ?thesis by (auto simp: delete_contact_def Let_def)
qed

text \<open>
  C7. \<open>delete_contact\<close> always returns normally. Comparing the lower-cased
  \<open>"first last"\<close> of each contact with the lower-cased argument, in list order: when some
  contact matches, the first one that does is taken out of the list (the contacts before it
  and after it stay, in order), \<open>Print_deleted\<close> is printed and \<open>Deleted_contact\<close> is logged;
  when none matches, the list is untouched, \<open>Print_no_contact_found\<close> is printed and
  \<open>Failed_to_delete_contact\<close> is logged.
\<close>

theorem delete_contact_first_match:
  "delete_contact full_name w =
     (if \<exists>r \<in> set (contacts_list w). full_name_of (objects w r) = lower full_name then
        Inr ((), log_operation (Deleted_contact (lower full_name))
                   (print (Print_deleted (lower full_name))
                      (w\<lparr>contacts_list :=
                           takeWhile (\<lambda>r. full_name_of (objects w r) \<noteq> lower full_name)
                             (contacts_list w) @
                           tl (dropWhile (\<lambda>r. full_name_of (objects w r) \<noteq> lower full_name)
                             (contacts_list w))\<rparr>)))
      else
        Inr ((), log_operation (Failed_to_delete_contact (lower full_name))
                   (print (Print_no_contact_found (lower full_name)) w)))"
  by (rule delete_contact_eq)

theorem delete_contact_first_match_witness:
  "contacts_list (world_after (delete_contact ''ann LEE'' ann_world)) = [] \<and>
   log_lines (world_after (delete_contact ''ann LEE'' ann_world)) =
     log_lines ann_world @ [(clock ann_world (ticks ann_world), Deleted_contact ''ann lee'')] \<and>
   contacts_list (world_after (delete_contact ''Bob Ray'' ann_world)) = [0] \<and>
   stdout (world_after (delete_contact ''Bob Ray'' ann_world)) =
     stdout ann_world @ [Print_no_contact_found ''bob ray''] \<and>
   log_lines (world_after (delete_contact ''Bob Ray'' ann_world)) =
     log_lines ann_world @
       [(clock ann_world (ticks ann_world), Failed_to_delete_contact ''bob ray'')]"
  using delete_contact_first_match [of "''ann LEE''" ann_world]
    delete_contact_first_match [of "''Bob Ray''" ann_world]
  by (simp add: ann_world_fields full_name_of_def lower_examples)

section \<open>Calls that raise\<close>

lemma nameless_world_fields:
  "contacts_list nameless_world = [0]"
  "last_name (objects nameless_world 0) = []"
  by (simp_all add: nameless_world_def with_contact_def new_contact_def Contact_init_def now_def
      add_contact_def initial_world_def)

text \<open>
  C5. Two calls that leave the phone book by an uncaught IndexError: grouping a list that
  holds a contact with an empty last name, and a batch import from a file with a
  two-field row.
\<close>

theorem group_sort_and_short_row_raise:
  "raised (sort_contacts ''group'' nameless_world) = Some IndexError \<and>
   raised (batch_add_contacts ''short.csv'' initial_world) = Some IndexError"
  by (simp add: sort_contacts_def nameless_world_fields batch_add_contacts_def initial_world_def
      example_files_def read_row_def index_def)

section \<open>Batch import and batch delete\<close>

lemma read_row_ok:
  "3 \<le> length row \<Longrightarrow>
   read_row row = Inr (row ! 0, row ! 1, row ! 2,
     (if length row > 3 then Some (row ! 3) else None),
     (if length row > 4 then Some (row ! 4) else None))"
  by (auto simp: read_row_def index_def)

lemma read_row_short: "length row < 3 \<Longrightarrow> read_row row = Inl IndexError"
  by (auto simp: read_row_def index_def)

lemma Contact_init_values:
  "values_of (fst (Contact_init fn ln ph em ad w)) =
     \<lparr>first_name = fn, last_name = ln, phone_number = ph, email = em, address = ad\<rparr>"
  by (simp add: Contact_init_def now_def values_of_def)

lemma Contact_init_world:
  "snd (Contact_init fn ln ph em ad w) = w\<lparr>ticks := Suc (Suc (ticks w))\<rparr>"
  by (simp add: Contact_init_def now_def)

lemma batch_add_rows_step:
  assumes "3 \<le> length row"
  shows "batch_add_rows (row # rows) w =
     batch_add_rows rows
       (w\<lparr>ticks := Suc (Suc (ticks w)),
          objects := (objects w)(next_ref w :=
             fst (Contact_init (row ! 0) (row ! 1) (row ! 2)
               (if length row > 3 then Some (row ! 3) else None)
               (if length row > 4 then Some (row ! 4) else None) w)),
          next_ref := Suc (next_ref w),
          contacts_list := contacts_list w @ [next_ref w]\<rparr>)"
  using assms
  by (simp add: read_row_ok new_contact_def case_prod_unfold Let_def Contact_init_world)

lemma batch_add_rows_ok:
  assumes "\<forall>row \<in> set rows. 3 \<le> length row"
  shows "\<exists>w'. batch_add_rows rows w = Inr w' \<and>
           contacts_list w' = contacts_list w @ [next_ref w ..< next_ref w + length rows] \<and>
           (\<forall>r < next_ref w. objects w' r = objects w r) \<and>
           (\<forall>i < length rows.
              values_of (objects w' (next_ref w + i)) = row_values (rows ! i) \<and>
              update_history (objects w' (next_ref w + i)) = []) \<and>
           data_files w' = data_files w \<and> audit_log w' = audit_log w \<and> stdout w' = stdout w \<and>
           clock w' = clock w \<and> ticks w' = ticks w + 2 * length rows"
  using assms
proof (induction rows arbitrary: w)
  case Nil
  show ?case by simp
next
  case (Cons row rows)
  let ?c = "fst (Contact_init (row ! 0) (row ! 1) (row ! 2)
               (if length row > 3 then Some (row ! 3) else None)
               (if length row > 4 then Some (row ! 4) else None) w)"
  let ?w1 = "w\<lparr>ticks := Suc (Suc (ticks w)),
          objects := (objects w)(next_ref w := ?c),
          next_ref := Suc (next_ref w),
          contacts_list := contacts_list w @ [next_ref w]\<rparr>"
  from Cons.prems have len: "3 \<le> length row" and rest: "\<forall>row \<in> set rows. 3 \<le> length row"
    by simp_all
  from Cons.IH [OF rest, of ?w1] obtain w' where w':
    "batch_add_rows rows ?w1 = Inr w'"
    "contacts_list w' = contacts_list ?w1 @ [next_ref ?w1 ..< next_ref ?w1 + length rows]"
    "\<forall>r < next_ref ?w1. objects w' r = objects ?w1 r"
    "\<forall>i < length rows.
        values_of (objects w' (next_ref ?w1 + i)) = row_values (rows ! i) \<and>
        update_history (objects w' (next_ref ?w1 + i)) = []"
    "data_files w' = data_files ?w1" "audit_log w' = audit_log ?w1" "stdout w' = stdout ?w1"
    "clock w' = clock ?w1" "ticks w' = ticks ?w1 + 2 * length rows"
    by blast
  have run: "batch_add_rows (row # rows) w = Inr w'"
    using w'(1) by (simp only: batch_add_rows_step [OF len])
  have lst: "contacts_list w' =
      contacts_list w @ [next_ref w ..< next_ref w + length (row # rows)]"
  proof -
    have "[next_ref w ..< next_ref w + length (row # rows)] =
          next_ref w # [Suc (next_ref w) ..< Suc (next_ref w) + length rows]"
      by (simp add: upt_conv_Cons del: upt_Suc)
    with w'(2) show ?thesis by simp
  qed
  have old: "\<forall>r < next_ref w. objects w' r = objects w r"
    using w'(3) by simp
  have here: "objects w' (next_ref w) = ?c"
    using w'(3) by simp
  have new: "\<forall>i < length (row # rows).
      values_of (objects w' (next_ref w + i)) = row_values ((row # rows) ! i) \<and>
      update_history (objects w' (next_ref w + i)) = []"
  proof (intro allI impI)
    fix i assume i: "i < length (row # rows)"
    show "values_of (objects w' (next_ref w + i)) = row_values ((row # rows) ! i) \<and>
      update_history (objects w' (next_ref w + i)) = []"
    proof (cases i)
      case 0
      then show ?thesis
        using here by (simp add: Contact_init_values row_values_def Contact_init_history)
    next
      case (Suc j)
      with i have "j < length rows" by simp
      with w'(4) Suc show ?thesis by simp
    qed
  qed
  show ?case
    using run lst old new w'(5,6,7,8,9) by simp
qed

lemma list_remove_Some: "\<exists>x \<in> set xs. P x \<Longrightarrow> \<exists>ys. list_remove P xs = Some ys"
proof (induction xs)
  case Nil
  then show ?case by simp
next
  case (Cons a xs)
  show ?case
  proof (cases "P a")
    case True
    then show ?thesis by simp
  next
    case False
    with Cons.prems have "\<exists>x \<in> set xs. P x" by simp
    from Cons.IH [OF this] obtain ys where "list_remove P xs = Some ys" ..
    with False show ?thesis by simp
  qed
qed

lemma list_remove_mset:
  "list_remove (\<lambda>x. f x = k) xs = Some ys \<Longrightarrow>
   mset (map f xs) = add_mset k (mset (map f ys)) \<and> length xs = Suc (length ys)"
  by (induction xs arbitrary: ys) (auto split: if_splits option.splits)

lemma Contact_init_names:
  "first_name (fst (Contact_init fn ln ph em ad w)) = fn"
  "last_name (fst (Contact_init fn ln ph em ad w)) = ln"
  by (simp_all add: Contact_init_def now_def)

lemma batch_delete_rows_Cons:
  assumes "read_row row = Inr (fn, ln, ph, em, ad)"
  shows "batch_delete_rows (row # rows) w =
     (case list_remove (\<lambda>r. values_of (objects w r) =
              \<lparr>first_name = fn, last_name = ln, phone_number = ph, email = em, address = ad\<rparr>)
            (contacts_list w) of
        Some cs \<Rightarrow> batch_delete_rows rows (w\<lparr>ticks := Suc (Suc (ticks w)), contacts_list := cs\<rparr>)
      | None \<Rightarrow> batch_delete_rows rows
          (print (Print_does_not_exist fn ln) (w\<lparr>ticks := Suc (Suc (ticks w))\<rparr>)))"
  using assms
  by (simp add: case_prod_unfold Let_def Contact_init_world Contact_init_names
      contact_eq_values Contact_init_values split: option.splits)

lemma batch_delete_rows_step:
  assumes "3 \<le> length row"
  shows "batch_delete_rows (row # rows) w =
     (case list_remove (\<lambda>r. values_of (objects w r) = row_values row) (contacts_list w) of
        Some cs \<Rightarrow> batch_delete_rows rows (w\<lparr>ticks := Suc (Suc (ticks w)), contacts_list := cs\<rparr>)
      | None \<Rightarrow> batch_delete_rows rows
          (print (Print_does_not_exist (row ! 0) (row ! 1)) (w\<lparr>ticks := Suc (Suc (ticks w))\<rparr>)))"
  unfolding row_values_def
  by (rule batch_delete_rows_Cons) (rule read_row_ok [OF assms])

lemma batch_delete_rows_ok:
  assumes "\<forall>row \<in> set rows. 3 \<le> length row"
      and "mset (map row_values rows) \<subseteq>#
           mset (map (\<lambda>r. values_of (objects w r)) (contacts_list w))"
  shows "\<exists>w'. batch_delete_rows rows w = Inr w' \<and>
           length (contacts_list w') + length rows = length (contacts_list w) \<and>
           objects w' = objects w \<and> data_files w' = data_files w \<and>
           audit_log w' = audit_log w \<and> stdout w' = stdout w"
  using assms
proof (induction rows arbitrary: w)
  case Nil
  show ?case by simp
next
  case (Cons row rows)
  let ?f = "\<lambda>r. values_of (objects w r)"
  from Cons.prems have len: "3 \<le> length row" and rest: "\<forall>row \<in> set rows. 3 \<le> length row"
    by simp_all
  from Cons.prems(2) have "row_values row \<in># mset (map ?f (contacts_list w))"
    by (simp add: insert_subset_eq_iff)
  then have "\<exists>r \<in> set (contacts_list w). ?f r = row_values row"
    by auto
  then obtain cs where cs: "list_remove (\<lambda>r. ?f r = row_values row) (contacts_list w) = Some cs"
    using list_remove_Some [of "contacts_list w" "\<lambda>r. ?f r = row_values row"] by blast
  from list_remove_mset [OF cs] have m:
    "mset (map ?f (contacts_list w)) = add_mset (row_values row) (mset (map ?f cs))"
    "length (contacts_list w) = Suc (length cs)"
    by simp_all
  let ?w1 = "w\<lparr>ticks := Suc (Suc (ticks w)), contacts_list := cs\<rparr>"
  from Cons.prems(2) m(1) have sub:
    "mset (map row_values rows) \<subseteq># mset (map (\<lambda>r. values_of (objects ?w1 r)) (contacts_list ?w1))"
    by simp
  from Cons.IH [OF rest sub] obtain w' where w':
    "batch_delete_rows rows ?w1 = Inr w'"
    "length (contacts_list w') + length rows = length (contacts_list ?w1)"
    "objects w' = objects ?w1" "data_files w' = data_files ?w1"
    "audit_log w' = audit_log ?w1" "stdout w' = stdout ?w1"
    by blast
  have "batch_delete_rows (row # rows) w = Inr w'"
    using w'(1) by (simp only: batch_delete_rows_step [OF len] cs option.case)
  then show ?case using w' m(2) by simp
qed

lemma batch_add_contacts_ok:
  assumes "data_files w filename = Some rows"
      and "\<forall>row \<in> set (drop 1 rows). 3 \<le> length row"
  shows "raised (batch_add_contacts filename w) = None \<and>
         contacts_list (world_after (batch_add_contacts filename w)) =
           contacts_list w @ [next_ref w ..< next_ref w + length (drop 1 rows)] \<and>
         (\<forall>i < length (drop 1 rows).
            values_of (objects (world_after (batch_add_contacts filename w)) (next_ref w + i)) =
              row_values (drop 1 rows ! i) \<and>
            update_history (objects (world_after (batch_add_contacts filename w))
              (next_ref w + i)) = []) \<and>
         (\<forall>r < next_ref w.
            objects (world_after (batch_add_contacts filename w)) r = objects w r) \<and>
         log_lines (world_after (batch_add_contacts filename w)) =
           log_lines w @
             [(clock w (ticks w + 2 * length (drop 1 rows)), Batch_added_contacts filename)]"
proof -
  from batch_add_rows_ok [OF assms(2), of w] obtain wa where wa:
    "batch_add_rows (drop 1 rows) w = Inr wa"
    "contacts_list wa = contacts_list w @ [next_ref w ..< next_ref w + length (drop 1 rows)]"
    "\<forall>r < next_ref w. objects wa r = objects w r"
    "\<forall>i < length (drop 1 rows).
        values_of (objects wa (next_ref w + i)) = row_values (drop 1 rows ! i) \<and>
        update_history (objects wa (next_ref w + i)) = []"
    "audit_log wa = audit_log w" "clock wa = clock w"
    "ticks wa = ticks w + 2 * length (drop 1 rows)"
    by blast
  have l: "log_lines wa = log_lines w"
    using wa(5) by (simp add: log_lines_def)
  have "batch_add_contacts filename w =
      Inr ((), log_operation (Batch_added_contacts filename) (print Print_batch_added wa))"
    using assms(1) wa(1) by (simp add: batch_add_contacts_def)
  then show ?thesis
    using wa(2,3,4,6,7) l by simp
qed

lemma batch_add_rows_append:
  "batch_add_rows (xs @ ys) w =
     (case batch_add_rows xs w of Inl ew \<Rightarrow> Inl ew | Inr w' \<Rightarrow> batch_add_rows ys w')"
proof (induction xs arbitrary: w)
  case Nil
  show ?case by simp
next
  case (Cons row xs)
  show ?case
  proof (cases "3 \<le> length row")
    case True
    show ?thesis
      by (simp only: append_Cons batch_add_rows_step [OF True] Cons.IH)
  next
    case False
    then show ?thesis by (simp add: read_row_short)
  qed
qed

lemma batch_delete_rows_append:
  "batch_delete_rows (xs @ ys) w =
     (case batch_delete_rows xs w of Inl ew \<Rightarrow> Inl ew | Inr w' \<Rightarrow> batch_delete_rows ys w')"
proof (induction xs arbitrary: w)
  case Nil
  show ?case by simp
next
  case (Cons row xs)
  show ?case
  proof (cases "3 \<le> length row")
    case True
    show ?thesis
      by (simp only: append_Cons batch_delete_rows_step [OF True] Cons.IH split: option.splits)
        simp
  next
    case False
    then show ?thesis by (simp add: read_row_short)
  qed
qed

lemma rows_round_trip:
  assumes ok: "\<forall>row \<in> set rows. 3 \<le> length row"
      and wa: "batch_add_rows rows w = Inr wa"
      and w1: "contacts_list w1 = contacts_list wa" "objects w1 = objects wa"
  shows "\<exists>w2. batch_delete_rows rows w1 = Inr w2 \<and>
           length (contacts_list w2) = length (contacts_list w) \<and>
           data_files w2 = data_files w1"
proof -
  from batch_add_rows_ok [OF ok, of w] wa have s:
    "contacts_list wa = contacts_list w @ [next_ref w ..< next_ref w + length rows]"
    "\<forall>i < length rows. values_of (objects wa (next_ref w + i)) = row_values (rows ! i)"
    by auto
  have new: "map (\<lambda>r. values_of (objects wa r)) [next_ref w ..< next_ref w + length rows] =
             map row_values rows"
    using s(2) by (intro nth_equalityI) simp_all
  have "map (\<lambda>r. values_of (objects w1 r)) (contacts_list w1) =
        map (\<lambda>r. values_of (objects wa r)) (contacts_list w) @ map row_values rows"
    by (simp only: w1 s(1) map_append new)
  then have sub: "mset (map row_values rows) \<subseteq>#
       mset (map (\<lambda>r. values_of (objects w1 r)) (contacts_list w1))"
    by (simp only: mset_append mset_subset_eq_add_right)
  from batch_delete_rows_ok [OF ok sub] obtain w2 where w2:
    "batch_delete_rows rows w1 = Inr w2"
    "length (contacts_list w2) + length rows = length (contacts_list w1)"
    "data_files w2 = data_files w1"
    by blast
  from w2(2) have "length (contacts_list w2) = length (contacts_list w)"
    by (simp add: w1(1) s(1))
  with w2(1,3) show ?thesis by blast
qed

lemma bad_row_first:
  assumes "takeWhile (\<lambda>row. 3 \<le> length row) rows \<noteq> rows"
  shows "\<exists>bad rest. rows = takeWhile (\<lambda>row. 3 \<le> length row) rows @ bad # rest \<and> length bad < 3"
proof -
  let ?P = "\<lambda>row. 3 \<le> length row"
  have "dropWhile ?P rows \<noteq> []"
    using assms by (metis takeWhile_dropWhile_id append_Nil2)
  then obtain bad rest where d: "dropWhile ?P rows = bad # rest"
    by (cases "dropWhile ?P rows") auto
  then have "\<not> ?P bad"
    using hd_dropWhile [of ?P rows] by simp
  moreover have "rows = takeWhile ?P rows @ bad # rest"
    using d takeWhile_dropWhile_id [of ?P rows] by simp
  ultimately show ?thesis by (intro exI [of _ bad] exI [of _ rest]) simp
qed

text \<open>
  C6. A batch delete from a file, run right after a batch import from the same file,
  leaves the contact list as long as it was before the import, for every list (also one
  that already holds contacts equal to rows of the file) and every file. The delete
  returns normally when the import did; when the import stopped at a row with fewer than
  three fields, the delete, run from the world the import left, stops at the same row
  with the same error, having removed as many contacts as the import had appended.
\<close>

theorem batch_round_trip:
  "raised (batch_delete_contacts filename (world_after (batch_add_contacts filename w))) =
     raised (batch_add_contacts filename w) \<and>
   length (contacts_list (world_after (batch_delete_contacts filename
      (world_after (batch_add_contacts filename w))))) = length (contacts_list w)"
proof (cases "data_files w filename")
  case None
  then show ?thesis by (simp add: batch_add_contacts_def batch_delete_contacts_def)
next
  case (Some rows0)
  define good where "good = takeWhile (\<lambda>row. 3 \<le> length row) (drop 1 rows0)"
  have okg: "\<forall>row \<in> set good. 3 \<le> length row"
    unfolding good_def by (auto dest: set_takeWhileD)
  from batch_add_rows_ok [OF okg, of w] obtain wa where wa:
    "batch_add_rows good w = Inr wa" "data_files wa = data_files w"
    by blast
  show ?thesis
  proof (cases "good = drop 1 rows0")
    case True
    let ?w1 = "log_operation (Batch_added_contacts filename) (print Print_batch_added wa)"
    have a: "batch_add_contacts filename w = Inr ((), ?w1)"
      using Some wa(1) True by (simp add: batch_add_contacts_def)
    from rows_round_trip [OF okg wa(1), of ?w1] obtain w2 where w2:
      "batch_delete_rows good ?w1 = Inr w2"
      "length (contacts_list w2) = length (contacts_list w)"
      by auto
    have "data_files ?w1 filename = Some rows0"
      using Some wa(2) by simp
    then have "batch_delete_contacts filename ?w1 =
        Inr ((), log_operation (Batch_deleted_contacts filename) (print Print_batch_removed w2))"
      using w2(1) True by (simp add: batch_delete_contacts_def)
    then show ?thesis
      using a w2(2) by simp
  next
    case False
    then have "takeWhile (\<lambda>row. 3 \<le> length row) (drop 1 rows0) \<noteq> drop 1 rows0"
      by (simp add: good_def)
    from bad_row_first [OF this] obtain bad rest where
      rows: "drop 1 rows0 = good @ bad # rest" and bad: "length bad < 3"
      unfolding good_def by blast
    have stop: "\<And>v. batch_add_rows (bad # rest) v = Inl (IndexError, v)"
      "\<And>v. batch_delete_rows (bad # rest) v = Inl (IndexError, v)"
      using bad by (simp_all add: read_row_short)
    have "batch_add_rows (drop 1 rows0) w = Inl (IndexError, wa)"
      by (simp only: rows batch_add_rows_append wa(1) stop sum.case)
    then have a: "batch_add_contacts filename w = Inl (IndexError, wa)"
      using Some by (simp add: batch_add_contacts_def)
    from rows_round_trip [OF okg wa(1), of wa] obtain w2 where w2:
      "batch_delete_rows good wa = Inr w2"
      "length (contacts_list w2) = length (contacts_list w)"
      by auto
    have "batch_delete_rows (drop 1 rows0) wa = Inl (IndexError, w2)"
      by (simp only: rows batch_delete_rows_append w2(1) stop sum.case)
    moreover have "data_files wa filename = Some rows0"
      using Some wa(2) by simp
    ultimately have "batch_delete_contacts filename wa = Inl (IndexError, w2)"
      by (simp add: batch_delete_contacts_def)
    then show ?thesis
      using a w2(2) by simp
  qed
qed

theorem batch_round_trip_witness:
  "raised (batch_add_contacts ''contacts.csv'' initial_world) = None \<and>
   length (contacts_list (world_after (batch_add_contacts ''contacts.csv'' initial_world))) = 2 \<and>
   raised (batch_delete_contacts ''contacts.csv''
      (world_after (batch_add_contacts ''contacts.csv'' initial_world))) = None \<and>
   length (contacts_list (world_after (batch_delete_contacts ''contacts.csv''
      (world_after (batch_add_contacts ''contacts.csv'' initial_world))))) = 0"
proof -
  let ?rows = "[[''first_name'', ''last_name'', ''phone_number''],
           [''Ann'', ''Lee'', ''(555) 555-5555''],
           [''Bob'', ''Ray'', ''(555) 555-0000'', ''bob@example.com'']]"
  have f: "data_files initial_world ''contacts.csv'' = Some ?rows"
    by (simp add: initial_world_fields example_files_contacts)
  have ok: "\<forall>row \<in> set (drop 1 ?rows). 3 \<le> length row"
    by simp
  from batch_add_contacts_ok [OF f ok]
  have r: "raised (batch_add_contacts ''contacts.csv'' initial_world) = None"
    "contacts_list (world_after (batch_add_contacts ''contacts.csv'' initial_world)) =
       contacts_list initial_world @
         [next_ref initial_world ..< next_ref initial_world + length (drop 1 ?rows)]"
    by blast+
  show ?thesis
    using r batch_round_trip [of "''contacts.csv''" initial_world]
    by (simp add: initial_world_fields)
qed

text \<open>
  C4, as stated, fails: the import takes the first row of the file away itself, whatever
  it holds. From a file whose only row is a well-formed contact, nothing is imported.
\<close>

theorem batch_add_contacts_drops_single_row:
  "data_files initial_world ''plain.csv'' = Some [[''Ann'', ''Lee'', ''(555) 555-5555'']] \<and>
   raised (batch_add_contacts ''plain.csv'' initial_world) = None \<and>
   contacts_list (world_after (batch_add_contacts ''plain.csv'' initial_world)) = []"
  using batch_add_contacts_ok
    [of initial_world "''plain.csv''" "[[''Ann'', ''Lee'', ''(555) 555-5555'']]"]
  by (simp add: initial_world_fields example_files_plain)

text \<open>
  C4, amended. For a file that exists and whose rows after the first all have at least
  three fields, the import returns normally; it skips the first row without looking at it
  and constructs one contact per remaining row, appended to the list in file order at the
  next free addresses: the first three fields are first name, last name and phone number,
  the fourth, if there, the email, the fifth, if there, the address (further fields are
  ignored), with an empty history; nothing is validated or compared with the contacts
  already there, which stay as they are.
\<close>

theorem batch_add_contacts_skips_first_row:
  assumes "data_files w filename = Some rows"
      and "\<forall>row \<in> set (drop 1 rows). 3 \<le> length row"
  shows "raised (batch_add_contacts filename w) = None \<and>
         contacts_list (world_after (batch_add_contacts filename w)) =
           contacts_list w @ [next_ref w ..< next_ref w + length (drop 1 rows)] \<and>
         (\<forall>i < length (drop 1 rows).
            values_of (objects (world_after (batch_add_contacts filename w)) (next_ref w + i)) =
              row_values (drop 1 rows ! i) \<and>
            update_history (objects (world_after (batch_add_contacts filename w))
              (next_ref w + i)) = []) \<and>
         (\<forall>r < next_ref w.
            objects (world_after (batch_add_contacts filename w)) r = objects w r)"
  using batch_add_contacts_ok [OF assms] by blast

theorem batch_add_contacts_skips_first_row_witness:
  "data_files initial_world ''contacts.csv'' =
     Some [[''first_name'', ''last_name'', ''phone_number''],
           [''Ann'', ''Lee'', ''(555) 555-5555''],
           [''Bob'', ''Ray'', ''(555) 555-0000'', ''bob@example.com'']] \<and>
   raised (batch_add_contacts ''contacts.csv'' initial_world) = None \<and>
   contacts_list (world_after (batch_add_contacts ''contacts.csv'' initial_world)) = [0, 1] \<and>
   values_of (objects (world_after (batch_add_contacts ''contacts.csv'' initial_world)) 0) =
     \<lparr>first_name = ''Ann'', last_name = ''Lee'', phone_number = ''(555) 555-5555'',
      email = None, address = None\<rparr> \<and>
   values_of (objects (world_after (batch_add_contacts ''contacts.csv'' initial_world)) 1) =
     \<lparr>first_name = ''Bob'', last_name = ''Ray'', phone_number = ''(555) 555-0000'',
      email = Some ''bob@example.com'', address = None\<rparr>"
proof -
  let ?rows = "[[''first_name'', ''last_name'', ''phone_number''],
           [''Ann'', ''Lee'', ''(555) 555-5555''],
           [''Bob'', ''Ray'', ''(555) 555-0000'', ''bob@example.com'']]"
  have f: "data_files initial_world ''contacts.csv'' = Some ?rows"
    by (simp add: initial_world_fields example_files_contacts)
  have ok: "\<forall>row \<in> set (drop 1 ?rows). 3 \<le> length row"
    by simp
  from batch_add_contacts_skips_first_row [OF f ok]
  have r: "raised (batch_add_contacts ''contacts.csv'' initial_world) = None"
    "contacts_list (world_after (batch_add_contacts ''contacts.csv'' initial_world)) =
       contacts_list initial_world @
         [next_ref initial_world ..< next_ref initial_world + length (drop 1 ?rows)]"
    "\<forall>i < length (drop 1 ?rows).
        values_of (objects (world_after (batch_add_contacts ''contacts.csv'' initial_world))
           (next_ref initial_world + i)) = row_values (drop 1 ?rows ! i)"
    by blast+
  from r(3) have
    "values_of (objects (world_after (batch_add_contacts ''contacts.csv'' initial_world)) 0) =
       row_values [''Ann'', ''Lee'', ''(555) 555-5555'']"
    "values_of (objects (world_after (batch_add_contacts ''contacts.csv'' initial_world)) 1) =
       row_values [''Bob'', ''Ray'', ''(555) 555-0000'', ''bob@example.com'']"
    by (simp_all add: initial_world_fields)
  then show ?thesis
    using f r(1,2) by (simp add: initial_world_fields row_values_def upt_conv_Cons)
qed

section \<open>The audit log\<close>





















lemma has_break_chars_const [simp]:
  "\<not> has_break (chars '' - '')"
  by (simp add: has_break_def chars_def)

lemma has_break_append [simp]: "has_break (xs @ ys) = (has_break xs \<or> has_break ys)"
  by (auto simp: has_break_def)




text \<open>After one contact with a line feed in its first name was added to an empty log,
  \<open>view_audit_log\<close> prints the header and two lines.\<close>

lemma view_audit_log_two_lines:
  "length (stdout (world_after (view_audit_log two_line_world))) = 3"
  by (simp add: view_audit_log_def two_line_world_def with_contact_def new_contact_def
      Contact_init_def now_def add_contact_def initial_world_def log_operation_def log_lines_def
      file_text_def record_text_def chars_def)




end
